theory Spec2Isabelle
  imports Main
begin

section \<open>Data model\<close>

text \<open>
  The handler of \<^verbatim>\<open>src/handlers/guildMemberUpdate.ts\<close> reads five fields of two
  member snapshots and the flag \<^verbatim>\<open>partial\<close> of the old one. The types are those of the
  discord.js declarations the source imports: \<^verbatim>\<open>premiumSince: Date | null\<close>,
  \<^verbatim>\<open>nickname: string | null\<close>, \<^verbatim>\<open>pending: boolean\<close>, \<^verbatim>\<open>avatar: string | null\<close> and
  \<^verbatim>\<open>roles.cache: Collection<Snowflake, Role>\<close>. A \<^verbatim>\<open>Date\<close> is its millisecond timestamp.
  A \<^verbatim>\<open>Collection\<close> is a JavaScript \<^verbatim>\<open>Map\<close>: its entries are kept as an association list in
  insertion order, which is the order \<^verbatim>\<open>forEach\<close> visits them in. Of a \<^verbatim>\<open>Role\<close> the handler
  reads the \<^verbatim>\<open>id\<close> only. A \<^verbatim>\<open>PartialGuildMember\<close> has the same fields, some of them
  nullable; the handler reads none of them when \<^verbatim>\<open>partial\<close> is set.
\<close>

type_synonym snowflake = string

record role =
  role_id :: snowflake
  role_name :: string

type_synonym role_collection = "(snowflake \<times> role) list"

record guild_member =
  partial :: bool
  premiumSince :: "int option"
  roles_cache :: role_collection
  nickname :: "string option"
  pending :: bool
  avatar :: "string option"

text \<open>
  \<^verbatim>\<open>client.emit(name, ...args)\<close> publishes an event name with positional arguments. The
  client is the sequence of emissions it has received so far.
\<close>

datatype arg = MemberArg guild_member | RoleArg role | StringArg "string option"

type_synonym emission = "string \<times> arg list"

type_synonym client = "emission list"

text \<open>The handler's mutable state: the client and the local variable \<^verbatim>\<open>emitted\<close>.\<close>

type_synonym hstate = "client \<times> bool"

section \<open>JavaScript primitives the handler uses\<close>

text \<open>
  Truthiness of a \<^verbatim>\<open>Date | null\<close>: every object is truthy, only \<^verbatim>\<open>null\<close> is falsy.
\<close>

definition truthy_date :: "int option \<Rightarrow> bool" where
  "truthy_date d = (case d of None \<Rightarrow> False | Some t \<Rightarrow> True)"

text \<open>
  Truthiness of a \<^verbatim>\<open>string | null\<close>: \<^verbatim>\<open>null\<close> and the empty string are falsy.
\<close>

definition truthy_string :: "string option \<Rightarrow> bool" where
  "truthy_string v = (case v of None \<Rightarrow> False | Some s \<Rightarrow> s \<noteq> [])"

text \<open>\<^verbatim>\<open>Map.prototype.has\<close>: is the key among the entries.\<close>

definition has :: "role_collection \<Rightarrow> snowflake \<Rightarrow> bool" where
  "has c k = (k \<in> set (map fst c))"

definition emit :: "string \<Rightarrow> arg list \<Rightarrow> hstate \<Rightarrow> hstate" where
  "emit name args s = (fst s @ [(name, args)], snd s)"

definition set_emitted :: "hstate \<Rightarrow> hstate" where
  "set_emitted s = (fst s, True)"

section \<open>The handler\<close>

text \<open>Lines 24 to 27.\<close>

definition check_boost :: "guild_member \<Rightarrow> guild_member \<Rightarrow> hstate \<Rightarrow> hstate" where
  "check_boost oldMember newMember s =
     (if \<not> truthy_date (premiumSince oldMember) \<and> truthy_date (premiumSince newMember)
      then set_emitted (emit ''guildMemberBoost'' [MemberArg newMember] s)
      else s)"

text \<open>Lines 37 to 40.\<close>

definition check_unboost :: "guild_member \<Rightarrow> guild_member \<Rightarrow> hstate \<Rightarrow> hstate" where
  "check_unboost oldMember newMember s =
     (if truthy_date (premiumSince oldMember) \<and> \<not> truthy_date (premiumSince newMember)
      then set_emitted (emit ''guildMemberUnboost'' [MemberArg newMember] s)
      else s)"

text \<open>
  Lines 41 to 44: the array \<^verbatim>\<open>addedRoles\<close> starts empty and receives, in the iteration
  order of the new member's collection, every role whose id is no key of the old one's.
\<close>

definition addedRoles :: "guild_member \<Rightarrow> guild_member \<Rightarrow> role list" where
  "addedRoles oldMember newMember =
     fold (\<lambda>(k, role) acc.
             if \<not> has (roles_cache oldMember) (role_id role) then acc @ [role] else acc)
          (roles_cache newMember) []"

text \<open>Lines 55 to 58.\<close>

definition check_role_add :: "guild_member \<Rightarrow> guild_member \<Rightarrow> hstate \<Rightarrow> hstate" where
  "check_role_add oldMember newMember s =
     fold (\<lambda>role s. set_emitted (emit ''guildMemberRoleAdd'' [MemberArg oldMember, RoleArg role] s))
          (addedRoles oldMember newMember) s"

text \<open>Lines 59 to 62.\<close>

definition removedRoles :: "guild_member \<Rightarrow> guild_member \<Rightarrow> role list" where
  "removedRoles oldMember newMember =
     fold (\<lambda>(k, role) acc.
             if \<not> has (roles_cache newMember) (role_id role) then acc @ [role] else acc)
          (roles_cache oldMember) []"

text \<open>Lines 73 to 76.\<close>

definition check_role_remove :: "guild_member \<Rightarrow> guild_member \<Rightarrow> hstate \<Rightarrow> hstate" where
  "check_role_remove oldMember newMember s =
     fold (\<lambda>role s. set_emitted (emit ''guildMemberRoleRemove'' [MemberArg oldMember, RoleArg role] s))
          (removedRoles oldMember newMember) s"

text \<open>Lines 88 to 91: strict inequality of two \<^verbatim>\<open>string | null\<close> values.\<close>

definition check_nickname :: "guild_member \<Rightarrow> guild_member \<Rightarrow> hstate \<Rightarrow> hstate" where
  "check_nickname oldMember newMember s =
     (if nickname oldMember \<noteq> nickname newMember
      then set_emitted (emit ''guildMemberNicknameUpdate''
             [MemberArg newMember, StringArg (nickname oldMember), StringArg (nickname newMember)] s)
      else s)"

text \<open>Lines 102 to 105.\<close>

definition check_entered :: "guild_member \<Rightarrow> guild_member \<Rightarrow> hstate \<Rightarrow> hstate" where
  "check_entered oldMember newMember s =
     (if pending oldMember \<noteq> pending newMember
      then set_emitted (emit ''guildMemberEntered'' [MemberArg newMember] s)
      else s)"

text \<open>
  Lines 117 to 151. The method \<^verbatim>\<open>avatarURL()\<close> belongs to discord.js; the handler only
  passes on what it returns (\<^verbatim>\<open>string | null\<close>), so it is a parameter here.
\<close>

definition check_avatar_add ::
  "(guild_member \<Rightarrow> string option) \<Rightarrow> guild_member \<Rightarrow> guild_member \<Rightarrow> hstate \<Rightarrow> hstate" where
  "check_avatar_add avatarURL oldMember newMember s =
     (if \<not> truthy_string (avatar oldMember) \<and> truthy_string (avatar newMember)
      then set_emitted (emit ''guildMemberAvatarAdd''
             [MemberArg newMember, StringArg (avatarURL newMember)] s)
      else s)"

definition check_avatar_update ::
  "(guild_member \<Rightarrow> string option) \<Rightarrow> guild_member \<Rightarrow> guild_member \<Rightarrow> hstate \<Rightarrow> hstate" where
  "check_avatar_update avatarURL oldMember newMember s =
     (if avatar oldMember \<noteq> avatar newMember
      then set_emitted (emit ''guildMemberAvatarUpdate''
             [MemberArg newMember, StringArg (avatarURL oldMember), StringArg (avatarURL newMember)] s)
      else s)"

definition check_avatar_remove ::
  "(guild_member \<Rightarrow> string option) \<Rightarrow> guild_member \<Rightarrow> guild_member \<Rightarrow> hstate \<Rightarrow> hstate" where
  "check_avatar_remove avatarURL oldMember newMember s =
     (if truthy_string (avatar oldMember) \<and> \<not> truthy_string (avatar newMember)
      then set_emitted (emit ''guildMemberAvatarRemove''
             [MemberArg newMember, StringArg (avatarURL oldMember)] s)
      else s)"

text \<open>The body of \<^verbatim>\<open>if (!oldMember.partial) { ... }\<close>, lines 14 to 152, in source order.\<close>

definition field_checks ::
  "(guild_member \<Rightarrow> string option) \<Rightarrow> guild_member \<Rightarrow> guild_member \<Rightarrow> hstate \<Rightarrow> hstate" where
  "field_checks avatarURL oldMember newMember s =
     (let s = check_boost oldMember newMember s;
          s = check_unboost oldMember newMember s;
          s = check_role_add oldMember newMember s;
          s = check_role_remove oldMember newMember s;
          s = check_nickname oldMember newMember s;
          s = check_entered oldMember newMember s;
          s = check_avatar_add avatarURL oldMember newMember s;
          s = check_avatar_update avatarURL oldMember newMember s;
          s = check_avatar_remove avatarURL oldMember newMember s
      in s)"

text \<open>
  \<^verbatim>\<open>handleGuildMemberUpdateEvent\<close>, lines 7 to 167: \<^verbatim>\<open>emitted\<close> starts false, the field
  checks run unless the old member is partial, and the fallback is emitted when
  \<^verbatim>\<open>emitted\<close> is still false. The result is the client after the call.
\<close>

definition handleGuildMemberUpdateEvent ::
  "(guild_member \<Rightarrow> string option) \<Rightarrow> client \<Rightarrow> guild_member \<Rightarrow> guild_member \<Rightarrow> client" where
  "handleGuildMemberUpdateEvent avatarURL client oldMember newMember =
     (let s = (client, False);
          s = (if \<not> partial oldMember then field_checks avatarURL oldMember newMember s else s);
          s = (if \<not> snd s
               then emit ''unhandledGuildMemberUpdate'' [MemberArg oldMember, MemberArg newMember] s
               else s)
      in fst s)"


section \<open>Observing one invocation\<close>

text \<open>What one call adds to the client: the client afterwards without what it held before.\<close>

definition emitted_events ::
  "(guild_member \<Rightarrow> string option) \<Rightarrow> client \<Rightarrow> guild_member \<Rightarrow> guild_member \<Rightarrow> emission list" where
  "emitted_events avatarURL client oldMember newMember =
     drop (length client) (handleGuildMemberUpdateEvent avatarURL client oldMember newMember)"

definition named :: "string \<Rightarrow> emission list \<Rightarrow> emission list" where
  "named name es = filter (\<lambda>e. fst e = name) es"

definition fires :: "string \<Rightarrow> emission list \<Rightarrow> bool" where
  "fires name es = (name \<in> set (map fst es))"

definition specific_events :: "emission list \<Rightarrow> emission list" where
  "specific_events es = filter (\<lambda>e. fst e \<noteq> ''unhandledGuildMemberUpdate'') es"

definition fallback :: "guild_member \<Rightarrow> guild_member \<Rightarrow> emission" where
  "fallback oldMember newMember =
     (''unhandledGuildMemberUpdate'', [MemberArg oldMember, MemberArg newMember])"

text \<open>The role identifiers of a member: the keys of its role collection.\<close>

definition role_ids :: "guild_member \<Rightarrow> snowflake set" where
  "role_ids m = set (map fst (roles_cache m))"

text \<open>
  What discord.js guarantees of \<^verbatim>\<open>roles.cache\<close>: a \<^verbatim>\<open>Map\<close> holds a key once, and every
  role is stored under its own id.
\<close>

definition keyed_by_id :: "role_collection \<Rightarrow> bool" where
  "keyed_by_id c = (distinct (map fst c) \<and> list_all (\<lambda>(k, r). k = role_id r) c)"

subsection \<open>The emissions of each check\<close>

definition boost_events :: "guild_member \<Rightarrow> guild_member \<Rightarrow> emission list" where
  "boost_events oldMember newMember =
     (if \<not> truthy_date (premiumSince oldMember) \<and> truthy_date (premiumSince newMember)
      then [(''guildMemberBoost'', [MemberArg newMember])] else [])"

definition unboost_events :: "guild_member \<Rightarrow> guild_member \<Rightarrow> emission list" where
  "unboost_events oldMember newMember =
     (if truthy_date (premiumSince oldMember) \<and> \<not> truthy_date (premiumSince newMember)
      then [(''guildMemberUnboost'', [MemberArg newMember])] else [])"

definition role_add_events :: "guild_member \<Rightarrow> guild_member \<Rightarrow> emission list" where
  "role_add_events oldMember newMember =
     map (\<lambda>r. (''guildMemberRoleAdd'', [MemberArg oldMember, RoleArg r]))
         (filter (\<lambda>r. role_id r \<notin> role_ids oldMember) (map snd (roles_cache newMember)))"

definition role_remove_events :: "guild_member \<Rightarrow> guild_member \<Rightarrow> emission list" where
  "role_remove_events oldMember newMember =
     map (\<lambda>r. (''guildMemberRoleRemove'', [MemberArg oldMember, RoleArg r]))
         (filter (\<lambda>r. role_id r \<notin> role_ids newMember) (map snd (roles_cache oldMember)))"

definition nickname_events :: "guild_member \<Rightarrow> guild_member \<Rightarrow> emission list" where
  "nickname_events oldMember newMember =
     (if nickname oldMember \<noteq> nickname newMember
      then [(''guildMemberNicknameUpdate'',
             [MemberArg newMember, StringArg (nickname oldMember), StringArg (nickname newMember)])]
      else [])"

definition entered_events :: "guild_member \<Rightarrow> guild_member \<Rightarrow> emission list" where
  "entered_events oldMember newMember =
     (if pending oldMember \<noteq> pending newMember
      then [(''guildMemberEntered'', [MemberArg newMember])] else [])"

definition avatar_add_events ::
  "(guild_member \<Rightarrow> string option) \<Rightarrow> guild_member \<Rightarrow> guild_member \<Rightarrow> emission list" where
  "avatar_add_events avatarURL oldMember newMember =
     (if \<not> truthy_string (avatar oldMember) \<and> truthy_string (avatar newMember)
      then [(''guildMemberAvatarAdd'', [MemberArg newMember, StringArg (avatarURL newMember)])]
      else [])"

definition avatar_update_events ::
  "(guild_member \<Rightarrow> string option) \<Rightarrow> guild_member \<Rightarrow> guild_member \<Rightarrow> emission list" where
  "avatar_update_events avatarURL oldMember newMember =
     (if avatar oldMember \<noteq> avatar newMember
      then [(''guildMemberAvatarUpdate'',
             [MemberArg newMember, StringArg (avatarURL oldMember), StringArg (avatarURL newMember)])]
      else [])"

definition avatar_remove_events ::
  "(guild_member \<Rightarrow> string option) \<Rightarrow> guild_member \<Rightarrow> guild_member \<Rightarrow> emission list" where
  "avatar_remove_events avatarURL oldMember newMember =
     (if truthy_string (avatar oldMember) \<and> \<not> truthy_string (avatar newMember)
      then [(''guildMemberAvatarRemove'', [MemberArg newMember, StringArg (avatarURL oldMember)])]
      else [])"

definition specific_trace ::
  "(guild_member \<Rightarrow> string option) \<Rightarrow> guild_member \<Rightarrow> guild_member \<Rightarrow> emission list" where
  "specific_trace avatarURL oldMember newMember =
     boost_events oldMember newMember @ unboost_events oldMember newMember
     @ role_add_events oldMember newMember @ role_remove_events oldMember newMember
     @ nickname_events oldMember newMember @ entered_events oldMember newMember
     @ avatar_add_events avatarURL oldMember newMember
     @ avatar_update_events avatarURL oldMember newMember
     @ avatar_remove_events avatarURL oldMember newMember"

section \<open>Sample data\<close>

text \<open>An avatar resolver and a few snapshots for the concrete cases below.\<close>

definition sample_avatarURL :: "guild_member \<Rightarrow> string option" where
  "sample_avatarURL m =
     (if truthy_string (avatar m) then map_option (\<lambda>h. ''cdn/'' @ h) (avatar m) else avatar m)"

definition plain_member :: guild_member where
  "plain_member =
     \<lparr>partial = False, premiumSince = None, roles_cache = [], nickname = None,
      pending = False, avatar = None\<rparr>"

definition roleA :: role where "roleA = \<lparr>role_id = ''A'', role_name = ''admin''\<rparr>"
definition roleB :: role where "roleB = \<lparr>role_id = ''B'', role_name = ''builder''\<rparr>"
definition roleC :: role where "roleC = \<lparr>role_id = ''C'', role_name = ''captain''\<rparr>"

definition member_AB :: guild_member where
  "member_AB = plain_member\<lparr>roles_cache := [(''A'', roleA), (''B'', roleB)]\<rparr>"

definition member_BA :: guild_member where
  "member_BA = plain_member\<lparr>roles_cache := [(''B'', roleB), (''A'', roleA)]\<rparr>"

definition member_BC :: guild_member where
  "member_BC = plain_member\<lparr>roles_cache := [(''B'', roleB), (''C'', roleC)]\<rparr>"

definition member_Bob :: guild_member where
  "member_Bob = plain_member\<lparr>nickname := Some ''Bob''\<rparr>"

definition member_pending :: guild_member where
  "member_pending = plain_member\<lparr>pending := True\<rparr>"

definition member_boosting :: guild_member where
  "member_boosting = plain_member\<lparr>premiumSince := Some 1700000000000\<rparr>"

definition member_avatar_x :: guild_member where
  "member_avatar_x = plain_member\<lparr>avatar := Some ''x''\<rparr>"

definition member_partial :: guild_member where
  "member_partial = plain_member\<lparr>partial := True, nickname := Some ''Bob''\<rparr>"

section \<open>Each check appends its emissions and raises the flag\<close>

lemma check_boost_eq:
  "check_boost oldMember newMember s =
     (fst s @ boost_events oldMember newMember, snd s \<or> boost_events oldMember newMember \<noteq> [])"
  by (simp add: check_boost_def boost_events_def emit_def set_emitted_def)

lemma check_unboost_eq:
  "check_unboost oldMember newMember s =
     (fst s @ unboost_events oldMember newMember, snd s \<or> unboost_events oldMember newMember \<noteq> [])"
  by (simp add: check_unboost_def unboost_events_def emit_def set_emitted_def)

lemma collect_roles_fold:
  "fold (\<lambda>(k, role) acc. if \<not> has c (role_id role) then acc @ [role] else acc) xs acc =
     acc @ filter (\<lambda>r. role_id r \<notin> set (map fst c)) (map snd xs)"
  by (induction xs arbitrary: acc) (force simp: has_def)+

lemma addedRoles_eq:
  "addedRoles oldMember newMember =
     filter (\<lambda>r. role_id r \<notin> role_ids oldMember) (map snd (roles_cache newMember))"
  by (simp add: addedRoles_def collect_roles_fold role_ids_def)

lemma removedRoles_eq:
  "removedRoles oldMember newMember =
     filter (\<lambda>r. role_id r \<notin> role_ids newMember) (map snd (roles_cache oldMember))"
  by (simp add: removedRoles_def collect_roles_fold role_ids_def)

lemma emit_each_fold:
  "fold (\<lambda>role s. set_emitted (emit name (f role) s)) rs s =
     (fst s @ map (\<lambda>r. (name, f r)) rs, snd s \<or> rs \<noteq> [])"
  by (induction rs arbitrary: s) (auto simp: emit_def set_emitted_def)

lemma check_role_add_eq:
  "check_role_add oldMember newMember s =
     (fst s @ role_add_events oldMember newMember, snd s \<or> role_add_events oldMember newMember \<noteq> [])"
  unfolding check_role_add_def role_add_events_def addedRoles_eq
  by (simp add: emit_each_fold)

lemma check_role_remove_eq:
  "check_role_remove oldMember newMember s =
     (fst s @ role_remove_events oldMember newMember,
      snd s \<or> role_remove_events oldMember newMember \<noteq> [])"
  unfolding check_role_remove_def role_remove_events_def removedRoles_eq
  by (simp add: emit_each_fold)

lemma check_nickname_eq:
  "check_nickname oldMember newMember s =
     (fst s @ nickname_events oldMember newMember, snd s \<or> nickname_events oldMember newMember \<noteq> [])"
  by (simp add: check_nickname_def nickname_events_def emit_def set_emitted_def)

lemma check_entered_eq:
  "check_entered oldMember newMember s =
     (fst s @ entered_events oldMember newMember, snd s \<or> entered_events oldMember newMember \<noteq> [])"
  by (simp add: check_entered_def entered_events_def emit_def set_emitted_def)

lemma check_avatar_add_eq:
  "check_avatar_add avatarURL oldMember newMember s =
     (fst s @ avatar_add_events avatarURL oldMember newMember,
      snd s \<or> avatar_add_events avatarURL oldMember newMember \<noteq> [])"
  by (simp add: check_avatar_add_def avatar_add_events_def emit_def set_emitted_def)

lemma check_avatar_update_eq:
  "check_avatar_update avatarURL oldMember newMember s =
     (fst s @ avatar_update_events avatarURL oldMember newMember,
      snd s \<or> avatar_update_events avatarURL oldMember newMember \<noteq> [])"
  by (simp add: check_avatar_update_def avatar_update_events_def emit_def set_emitted_def)

lemma check_avatar_remove_eq:
  "check_avatar_remove avatarURL oldMember newMember s =
     (fst s @ avatar_remove_events avatarURL oldMember newMember,
      snd s \<or> avatar_remove_events avatarURL oldMember newMember \<noteq> [])"
  by (simp add: check_avatar_remove_def avatar_remove_events_def emit_def set_emitted_def)

lemmas check_eqs =
  check_boost_eq check_unboost_eq check_role_add_eq check_role_remove_eq check_nickname_eq
  check_entered_eq check_avatar_add_eq check_avatar_update_eq check_avatar_remove_eq

lemma field_checks_eq:
  "field_checks avatarURL oldMember newMember s =
     (fst s @ specific_trace avatarURL oldMember newMember,
      snd s \<or> specific_trace avatarURL oldMember newMember \<noteq> [])"
  unfolding field_checks_def Let_def check_eqs specific_trace_def
  by auto

lemma handle_eq:
  "handleGuildMemberUpdateEvent avatarURL client oldMember newMember =
     client @ (if partial oldMember \<or> specific_trace avatarURL oldMember newMember = []
               then [fallback oldMember newMember]
               else specific_trace avatarURL oldMember newMember)"
  unfolding handleGuildMemberUpdateEvent_def Let_def field_checks_eq
  by (simp add: emit_def fallback_def)

lemma emitted_events_eq:
  "emitted_events avatarURL client oldMember newMember =
     (if partial oldMember \<or> specific_trace avatarURL oldMember newMember = []
      then [fallback oldMember newMember]
      else specific_trace avatarURL oldMember newMember)"
  unfolding emitted_events_def handle_eq by simp

lemma handle_appends:
  "handleGuildMemberUpdateEvent avatarURL client oldMember newMember =
     client @ emitted_events avatarURL client oldMember newMember"
  unfolding emitted_events_eq handle_eq by simp



section \<open>Which event names each check can produce\<close>

lemma named_append: "named nm (xs @ ys) = named nm xs @ named nm ys"
  by (simp add: named_def)

lemma named_map_const:
  "named nm (map (\<lambda>r. (name, f r)) rs) = (if nm = name then map (\<lambda>r. (name, f r)) rs else [])"
  by (induction rs) (auto simp: named_def)

lemma named_boost_events:
  "named nm (boost_events oldMember newMember) =
     (if nm = ''guildMemberBoost'' then boost_events oldMember newMember else [])"
  by (auto simp: named_def boost_events_def)

lemma named_unboost_events:
  "named nm (unboost_events oldMember newMember) =
     (if nm = ''guildMemberUnboost'' then unboost_events oldMember newMember else [])"
  by (auto simp: named_def unboost_events_def)

lemma named_role_add_events:
  "named nm (role_add_events oldMember newMember) =
     (if nm = ''guildMemberRoleAdd'' then role_add_events oldMember newMember else [])"
  unfolding role_add_events_def by (rule named_map_const)

lemma named_role_remove_events:
  "named nm (role_remove_events oldMember newMember) =
     (if nm = ''guildMemberRoleRemove'' then role_remove_events oldMember newMember else [])"
  unfolding role_remove_events_def by (rule named_map_const)

lemma named_nickname_events:
  "named nm (nickname_events oldMember newMember) =
     (if nm = ''guildMemberNicknameUpdate'' then nickname_events oldMember newMember else [])"
  by (auto simp: named_def nickname_events_def)

lemma named_entered_events:
  "named nm (entered_events oldMember newMember) =
     (if nm = ''guildMemberEntered'' then entered_events oldMember newMember else [])"
  by (auto simp: named_def entered_events_def)

lemma named_avatar_add_events:
  "named nm (avatar_add_events avatarURL oldMember newMember) =
     (if nm = ''guildMemberAvatarAdd'' then avatar_add_events avatarURL oldMember newMember else [])"
  by (auto simp: named_def avatar_add_events_def)

lemma named_avatar_update_events:
  "named nm (avatar_update_events avatarURL oldMember newMember) =
     (if nm = ''guildMemberAvatarUpdate''
      then avatar_update_events avatarURL oldMember newMember else [])"
  by (auto simp: named_def avatar_update_events_def)

lemma named_avatar_remove_events:
  "named nm (avatar_remove_events avatarURL oldMember newMember) =
     (if nm = ''guildMemberAvatarRemove''
      then avatar_remove_events avatarURL oldMember newMember else [])"
  by (auto simp: named_def avatar_remove_events_def)

lemmas named_events =
  named_boost_events named_unboost_events named_role_add_events named_role_remove_events
  named_nickname_events named_entered_events named_avatar_add_events
  named_avatar_update_events named_avatar_remove_events

lemma named_specific_trace:
  "named nm (specific_trace avatarURL oldMember newMember) =
     named nm (boost_events oldMember newMember) @ named nm (unboost_events oldMember newMember)
     @ named nm (role_add_events oldMember newMember)
     @ named nm (role_remove_events oldMember newMember)
     @ named nm (nickname_events oldMember newMember)
     @ named nm (entered_events oldMember newMember)
     @ named nm (avatar_add_events avatarURL oldMember newMember)
     @ named nm (avatar_update_events avatarURL oldMember newMember)
     @ named nm (avatar_remove_events avatarURL oldMember newMember)"
  by (simp add: specific_trace_def named_append)

lemma named_fallback_specific_trace:
  "named ''unhandledGuildMemberUpdate'' (specific_trace avatarURL oldMember newMember) = []"
  by (simp add: named_specific_trace named_events)

lemma specific_events_specific_trace:
  "specific_events (specific_trace avatarURL oldMember newMember) =
     specific_trace avatarURL oldMember newMember"
proof -
  have "\<forall>e \<in> set (specific_trace avatarURL oldMember newMember).
          fst e \<noteq> ''unhandledGuildMemberUpdate''"
    using named_fallback_specific_trace [of avatarURL oldMember newMember]
    by (simp add: named_def filter_empty_conv)
  then show ?thesis
    by (simp add: specific_events_def)
qed

lemma fires_named: "fires nm es = (named nm es \<noteq> [])"
  by (auto simp: fires_def named_def filter_empty_conv)

lemma named_emitted_events:
  "\<not> partial oldMember \<Longrightarrow> nm \<noteq> ''unhandledGuildMemberUpdate'' \<Longrightarrow>
     named nm (emitted_events avatarURL client oldMember newMember) =
       named nm (specific_trace avatarURL oldMember newMember)"
proof (cases "specific_trace avatarURL oldMember newMember = []")
  case True
  assume "nm \<noteq> ''unhandledGuildMemberUpdate''"
  with True show ?thesis
    by (simp add: emitted_events_eq named_def fallback_def)
next
  case False
  assume "\<not> partial oldMember"
  with False show ?thesis
    by (simp add: emitted_events_eq)
qed

lemma named_emitted:
  assumes "\<not> partial oldMember"
  shows "named ''guildMemberBoost'' (emitted_events avatarURL client oldMember newMember)
           = boost_events oldMember newMember"
    and "named ''guildMemberUnboost'' (emitted_events avatarURL client oldMember newMember)
           = unboost_events oldMember newMember"
    and "named ''guildMemberRoleAdd'' (emitted_events avatarURL client oldMember newMember)
           = role_add_events oldMember newMember"
    and "named ''guildMemberRoleRemove'' (emitted_events avatarURL client oldMember newMember)
           = role_remove_events oldMember newMember"
    and "named ''guildMemberNicknameUpdate'' (emitted_events avatarURL client oldMember newMember)
           = nickname_events oldMember newMember"
    and "named ''guildMemberEntered'' (emitted_events avatarURL client oldMember newMember)
           = entered_events oldMember newMember"
    and "named ''guildMemberAvatarAdd'' (emitted_events avatarURL client oldMember newMember)
           = avatar_add_events avatarURL oldMember newMember"
    and "named ''guildMemberAvatarUpdate'' (emitted_events avatarURL client oldMember newMember)
           = avatar_update_events avatarURL oldMember newMember"
    and "named ''guildMemberAvatarRemove'' (emitted_events avatarURL client oldMember newMember)
           = avatar_remove_events avatarURL oldMember newMember"
  using assms by (simp_all add: named_emitted_events named_specific_trace named_events)

lemma named_fallback_emitted:
  "specific_trace avatarURL oldMember newMember \<noteq> [] \<Longrightarrow> \<not> partial oldMember \<Longrightarrow>
     named ''unhandledGuildMemberUpdate'' (emitted_events avatarURL client oldMember newMember) = []"
  by (simp add: emitted_events_eq named_fallback_specific_trace)

section \<open>Role collections keyed by role id\<close>

lemma keyed_role_ids:
  "keyed_by_id (roles_cache m) \<Longrightarrow> x \<in> set (roles_cache m) \<Longrightarrow> role_id (snd x) \<in> role_ids m"
  by (cases x) (force simp: keyed_by_id_def role_ids_def list_all_iff)

lemma keyed_filter_ids:
  "list_all (\<lambda>(k, r). k = role_id r) c \<Longrightarrow>
     map role_id (filter (\<lambda>r. role_id r \<notin> S) (map snd c)) = filter (\<lambda>k. k \<notin> S) (map fst c)"
  by (induction c) auto

section \<open>Unfolding rules for concrete cases\<close>

lemmas trace_defs =
  specific_trace_def boost_events_def unboost_events_def role_add_events_def
  role_remove_events_def nickname_events_def entered_events_def avatar_add_events_def
  avatar_update_events_def avatar_remove_events_def role_ids_def truthy_date_def
  truthy_string_def

section \<open>The claims\<close>

text \<open>
  C1. Every invocation either emits one or more specific notifications and no fallback, or
  emits no specific notification and exactly one \<^verbatim>\<open>unhandledGuildMemberUpdate\<close>: one of the
  two, never both and never neither.
\<close>

theorem C1_specific_or_fallback:
  "(specific_events (emitted_events avatarURL client oldMember newMember) \<noteq> []
      \<and> named ''unhandledGuildMemberUpdate''
            (emitted_events avatarURL client oldMember newMember) = [])
   \<or> (specific_events (emitted_events avatarURL client oldMember newMember) = []
      \<and> named ''unhandledGuildMemberUpdate''
            (emitted_events avatarURL client oldMember newMember)
          = [(''unhandledGuildMemberUpdate'', [MemberArg oldMember, MemberArg newMember])])"
proof (cases "partial oldMember \<or> specific_trace avatarURL oldMember newMember = []")
  case True
  then have "emitted_events avatarURL client oldMember newMember = [fallback oldMember newMember]"
    by (simp add: emitted_events_eq)
  then show ?thesis
    by (simp add: specific_events_def named_def fallback_def)
next
  case False
  then have "emitted_events avatarURL client oldMember newMember =
               specific_trace avatarURL oldMember newMember"
    by (simp add: emitted_events_eq)
  with False show ?thesis
    by (simp add: specific_events_specific_trace named_fallback_specific_trace)
qed

theorem C1_specific_or_fallback_witness:
  "specific_events (emitted_events sample_avatarURL [] plain_member
                      (plain_member\<lparr>nickname := Some ''Bob''\<rparr>)) \<noteq> []
   \<and> named ''unhandledGuildMemberUpdate''
        (emitted_events sample_avatarURL [] plain_member
           (plain_member\<lparr>nickname := Some ''Bob''\<rparr>)) = []
   \<and> specific_events (emitted_events sample_avatarURL [] plain_member plain_member) = []
   \<and> named ''unhandledGuildMemberUpdate''
        (emitted_events sample_avatarURL [] plain_member plain_member)
      = [(''unhandledGuildMemberUpdate'', [MemberArg plain_member, MemberArg plain_member])]"
proof -
  have a: "emitted_events sample_avatarURL [] plain_member (plain_member\<lparr>nickname := Some ''Bob''\<rparr>)
           = [(''guildMemberNicknameUpdate'',
               [MemberArg (plain_member\<lparr>nickname := Some ''Bob''\<rparr>), StringArg None,
                StringArg (Some ''Bob'')])]"
    by (simp add: emitted_events_eq trace_defs plain_member_def)
  have b: "emitted_events sample_avatarURL [] plain_member plain_member
           = [(''unhandledGuildMemberUpdate'', [MemberArg plain_member, MemberArg plain_member])]"
    by (simp add: emitted_events_eq trace_defs plain_member_def fallback_def)
  show ?thesis
    using C1_specific_or_fallback [of sample_avatarURL "[]" plain_member
        "plain_member\<lparr>nickname := Some ''Bob''\<rparr>"]
      C1_specific_or_fallback [of sample_avatarURL "[]" plain_member plain_member]
    unfolding a b by (simp add: specific_events_def named_def)
qed


text \<open>
  C2. When the old snapshot is partial, the call emits exactly one
  \<^verbatim>\<open>unhandledGuildMemberUpdate\<close> and nothing else, whatever the fields of the two
  snapshots are.
\<close>

theorem C2_partial_old_fallback_only:
  "partial oldMember \<Longrightarrow>
     emitted_events avatarURL client oldMember newMember
       = [(''unhandledGuildMemberUpdate'', [MemberArg oldMember, MemberArg newMember])]"
  by (simp add: emitted_events_eq fallback_def)

theorem C2_partial_old_fallback_only_witness:
  "partial member_partial \<and> nickname member_partial \<noteq> nickname member_avatar_x
   \<and> avatar member_partial \<noteq> avatar member_avatar_x
   \<and> emitted_events sample_avatarURL [] member_partial member_avatar_x
       = [(''unhandledGuildMemberUpdate'', [MemberArg member_partial, MemberArg member_avatar_x])]"
proof -
  have p: "partial member_partial"
    by (simp add: plain_member_def member_avatar_x_def member_partial_def)
  have d: "nickname member_partial \<noteq> nickname member_avatar_x"
    "avatar member_partial \<noteq> avatar member_avatar_x"
    by (simp_all add: plain_member_def member_avatar_x_def member_partial_def)
  show ?thesis
    using p d C2_partial_old_fallback_only [OF p, of sample_avatarURL "[]" member_avatar_x]
    by simp
qed

text \<open>
  C3. When the old snapshot is not partial and neither the boost timestamp, the set of role
  identifiers, the nickname, the pending flag nor the avatar id differs, the call emits
  exactly one \<^verbatim>\<open>unhandledGuildMemberUpdate\<close> and no other event.
\<close>

theorem C3_no_difference_fallback_only:
  assumes "\<not> partial oldMember"
    and "keyed_by_id (roles_cache oldMember)" and "keyed_by_id (roles_cache newMember)"
    and "premiumSince oldMember = premiumSince newMember"
    and "role_ids oldMember = role_ids newMember"
    and "nickname oldMember = nickname newMember"
    and "pending oldMember = pending newMember"
    and "avatar oldMember = avatar newMember"
  shows "emitted_events avatarURL client oldMember newMember
           = [(''unhandledGuildMemberUpdate'', [MemberArg oldMember, MemberArg newMember])]"
proof -
  have "role_add_events oldMember newMember = []"
    using assms(3,5) by (auto simp: role_add_events_def filter_empty_conv dest: keyed_role_ids)
  moreover have "role_remove_events oldMember newMember = []"
    using assms(2,5) by (auto simp: role_remove_events_def filter_empty_conv dest: keyed_role_ids)
  ultimately have "specific_trace avatarURL oldMember newMember = []"
    using assms(4,6,7,8)
    by (simp add: specific_trace_def boost_events_def unboost_events_def nickname_events_def
        entered_events_def avatar_add_events_def avatar_update_events_def
        avatar_remove_events_def)
  then show ?thesis
    by (simp add: emitted_events_eq fallback_def)
qed

theorem C3_no_difference_fallback_only_witness:
  "\<not> partial member_AB \<and> keyed_by_id (roles_cache member_AB)
   \<and> keyed_by_id (roles_cache member_BA)
   \<and> premiumSince member_AB = premiumSince member_BA \<and> role_ids member_AB = role_ids member_BA
   \<and> nickname member_AB = nickname member_BA \<and> pending member_AB = pending member_BA
   \<and> avatar member_AB = avatar member_BA
   \<and> emitted_events sample_avatarURL [] member_AB member_BA
       = [(''unhandledGuildMemberUpdate'', [MemberArg member_AB, MemberArg member_BA])]"
proof -
  have p: "\<not> partial member_AB"
    by (simp add: plain_member_def member_AB_def member_BA_def roleA_def roleB_def roleC_def)
  have k: "keyed_by_id (roles_cache member_AB)" "keyed_by_id (roles_cache member_BA)"
    by (simp_all add: plain_member_def member_AB_def member_BA_def roleA_def roleB_def roleC_def keyed_by_id_def)
  have r: "role_ids member_AB = role_ids member_BA"
    by (simp add: role_ids_def member_AB_def member_BA_def insert_commute)
  have f: "premiumSince member_AB = premiumSince member_BA"
    "nickname member_AB = nickname member_BA" "pending member_AB = pending member_BA"
    "avatar member_AB = avatar member_BA"
    by (simp_all add: member_AB_def member_BA_def)
  show ?thesis
    using p k r f
      C3_no_difference_fallback_only [OF p k f(1) r f(2) f(3) f(4), of sample_avatarURL "[]"]
    by simp
qed

text \<open>
  C4. When the old snapshot is not partial, its avatar id is present and the new avatar id
  is absent, the call emits \<^verbatim>\<open>guildMemberAvatarUpdate\<close> with the new member and the old
  and new resolved URLs, and \<^verbatim>\<open>guildMemberAvatarRemove\<close> with the new member and the old
  resolved URL, once each. Present and absent are what the guards of lines 117 and 148
  test: the truthiness of the avatar id.
\<close>

theorem C4_avatar_removed_fires_update_and_remove:
  assumes "\<not> partial oldMember"
    and "truthy_string (avatar oldMember)"
    and "\<not> truthy_string (avatar newMember)"
  shows "named ''guildMemberAvatarUpdate'' (emitted_events avatarURL client oldMember newMember)
           = [(''guildMemberAvatarUpdate'',
               [MemberArg newMember, StringArg (avatarURL oldMember),
                StringArg (avatarURL newMember)])]
       \<and> named ''guildMemberAvatarRemove'' (emitted_events avatarURL client oldMember newMember)
           = [(''guildMemberAvatarRemove'', [MemberArg newMember, StringArg (avatarURL oldMember)])]"
proof -
  from assms(2,3) have d: "avatar oldMember \<noteq> avatar newMember"
    by auto
  have u: "avatar_update_events avatarURL oldMember newMember
             = [(''guildMemberAvatarUpdate'',
                 [MemberArg newMember, StringArg (avatarURL oldMember),
                  StringArg (avatarURL newMember)])]"
    using d by (simp add: avatar_update_events_def)
  have r: "avatar_remove_events avatarURL oldMember newMember
             = [(''guildMemberAvatarRemove'',
                 [MemberArg newMember, StringArg (avatarURL oldMember)])]"
    using assms(2,3) by (simp add: avatar_remove_events_def)
  show ?thesis
    using assms(1) u r by (simp add: named_emitted)
qed

text \<open>The case of the claim: old avatar id "x", new avatar id \<^verbatim>\<open>null\<close>.\<close>

theorem C4_avatar_removed_fires_update_and_remove_witness:
  "\<not> partial member_avatar_x \<and> avatar member_avatar_x = Some ''x''
   \<and> avatar plain_member = None
   \<and> truthy_string (avatar member_avatar_x) \<and> \<not> truthy_string (avatar plain_member)
   \<and> emitted_events sample_avatarURL [] member_avatar_x plain_member
       = [(''guildMemberAvatarUpdate'',
           [MemberArg plain_member, StringArg (Some ''cdn/x''), StringArg None]),
          (''guildMemberAvatarRemove'', [MemberArg plain_member, StringArg (Some ''cdn/x'')])]"
proof -
  have p: "\<not> partial member_avatar_x"
    and a: "avatar member_avatar_x = Some ''x''"
    and n: "avatar plain_member = None"
    by (simp_all add: plain_member_def member_avatar_x_def)
  have t: "truthy_string (avatar member_avatar_x)"
    unfolding a by (simp add: truthy_string_def)
  have f: "\<not> truthy_string (avatar plain_member)"
    unfolding n by (simp add: truthy_string_def)
  have u: "sample_avatarURL member_avatar_x = Some ''cdn/x''" "sample_avatarURL plain_member = None"
    by (simp_all add: plain_member_def member_avatar_x_def sample_avatarURL_def truthy_string_def)
  have e: "emitted_events sample_avatarURL [] member_avatar_x plain_member
             = [(''guildMemberAvatarUpdate'',
                 [MemberArg plain_member, StringArg (Some ''cdn/x''), StringArg None]),
                (''guildMemberAvatarRemove'', [MemberArg plain_member, StringArg (Some ''cdn/x'')])]"
    unfolding emitted_events_eq specific_trace_def u [symmetric]
    by (simp add: trace_defs plain_member_def member_avatar_x_def sample_avatarURL_def)
  show ?thesis
    using p a n t f e
      C4_avatar_removed_fires_update_and_remove [OF p t f, of sample_avatarURL "[]"]
    by simp
qed

text \<open>
  C5. When the old snapshot is not partial, \<^verbatim>\<open>guildMemberRoleAdd\<close> is emitted with the old
  member and the role, once for each role identifier that the new role collection has and
  the old one lacks, in the iteration order of the new collection, and
  \<^verbatim>\<open>guildMemberRoleRemove\<close> is emitted with the old member and the role, once for each
  role identifier that the old collection has and the new one lacks, in the iteration order
  of the old collection. When the two sets of identifiers differ, no fallback is emitted.
\<close>

theorem C5_role_add_and_remove:
  assumes "\<not> partial oldMember"
    and "keyed_by_id (roles_cache oldMember)" and "keyed_by_id (roles_cache newMember)"
  shows "named ''guildMemberRoleAdd'' (emitted_events avatarURL client oldMember newMember)
           = map (\<lambda>r. (''guildMemberRoleAdd'', [MemberArg oldMember, RoleArg r]))
               (filter (\<lambda>r. role_id r \<notin> role_ids oldMember) (map snd (roles_cache newMember)))
       \<and> distinct (map role_id
             (filter (\<lambda>r. role_id r \<notin> role_ids oldMember) (map snd (roles_cache newMember))))
       \<and> set (map role_id
             (filter (\<lambda>r. role_id r \<notin> role_ids oldMember) (map snd (roles_cache newMember))))
           = role_ids newMember - role_ids oldMember
       \<and> named ''guildMemberRoleRemove'' (emitted_events avatarURL client oldMember newMember)
           = map (\<lambda>r. (''guildMemberRoleRemove'', [MemberArg oldMember, RoleArg r]))
               (filter (\<lambda>r. role_id r \<notin> role_ids newMember) (map snd (roles_cache oldMember)))
       \<and> distinct (map role_id
             (filter (\<lambda>r. role_id r \<notin> role_ids newMember) (map snd (roles_cache oldMember))))
       \<and> set (map role_id
             (filter (\<lambda>r. role_id r \<notin> role_ids newMember) (map snd (roles_cache oldMember))))
           = role_ids oldMember - role_ids newMember
       \<and> (role_ids oldMember \<noteq> role_ids newMember \<longrightarrow>
            \<not> fires ''unhandledGuildMemberUpdate''
                (emitted_events avatarURL client oldMember newMember))"
proof -
  have add: "named ''guildMemberRoleAdd'' (emitted_events avatarURL client oldMember newMember)
               = map (\<lambda>r. (''guildMemberRoleAdd'', [MemberArg oldMember, RoleArg r]))
                   (filter (\<lambda>r. role_id r \<notin> role_ids oldMember)
                      (map snd (roles_cache newMember)))"
    using assms(1) by (simp add: named_emitted role_add_events_def)
  have rem: "named ''guildMemberRoleRemove'' (emitted_events avatarURL client oldMember newMember)
               = map (\<lambda>r. (''guildMemberRoleRemove'', [MemberArg oldMember, RoleArg r]))
                   (filter (\<lambda>r. role_id r \<notin> role_ids newMember)
                      (map snd (roles_cache oldMember)))"
    using assms(1) by (simp add: named_emitted role_remove_events_def)
  have ids_new: "map role_id
                   (filter (\<lambda>r. role_id r \<notin> role_ids oldMember) (map snd (roles_cache newMember)))
                 = filter (\<lambda>k. k \<notin> role_ids oldMember) (map fst (roles_cache newMember))"
    using assms(3) by (simp add: keyed_by_id_def keyed_filter_ids)
  have ids_old: "map role_id
                   (filter (\<lambda>r. role_id r \<notin> role_ids newMember) (map snd (roles_cache oldMember)))
                 = filter (\<lambda>k. k \<notin> role_ids newMember) (map fst (roles_cache oldMember))"
    using assms(2) by (simp add: keyed_by_id_def keyed_filter_ids)
  have d_new: "distinct (filter (\<lambda>k. k \<notin> role_ids oldMember) (map fst (roles_cache newMember)))"
    using assms(3) by (simp add: keyed_by_id_def)
  have d_old: "distinct (filter (\<lambda>k. k \<notin> role_ids newMember) (map fst (roles_cache oldMember)))"
    using assms(2) by (simp add: keyed_by_id_def)
  have s_new: "set (filter (\<lambda>k. k \<notin> role_ids oldMember) (map fst (roles_cache newMember)))
                 = role_ids newMember - role_ids oldMember"
    by (auto simp: role_ids_def)
  have s_old: "set (filter (\<lambda>k. k \<notin> role_ids newMember) (map fst (roles_cache oldMember)))
                 = role_ids oldMember - role_ids newMember"
    by (auto simp: role_ids_def)
  have sn: "set (map role_id
                  (filter (\<lambda>r. role_id r \<notin> role_ids oldMember) (map snd (roles_cache newMember))))
              = role_ids newMember - role_ids oldMember"
    unfolding ids_new by (rule s_new)
  have so: "set (map role_id
                  (filter (\<lambda>r. role_id r \<notin> role_ids newMember) (map snd (roles_cache oldMember))))
              = role_ids oldMember - role_ids newMember"
    unfolding ids_old by (rule s_old)
  have dn: "distinct (map role_id
              (filter (\<lambda>r. role_id r \<notin> role_ids oldMember) (map snd (roles_cache newMember))))"
    unfolding ids_new by (rule d_new)
  have do: "distinct (map role_id
              (filter (\<lambda>r. role_id r \<notin> role_ids newMember) (map snd (roles_cache oldMember))))"
    unfolding ids_old by (rule d_old)
  have fb: "\<not> fires ''unhandledGuildMemberUpdate''
                (emitted_events avatarURL client oldMember newMember)"
    if diff: "role_ids oldMember \<noteq> role_ids newMember"
  proof -
    from diff have "role_ids newMember - role_ids oldMember \<noteq> {}
                    \<or> role_ids oldMember - role_ids newMember \<noteq> {}"
      by blast
    moreover have "role_ids newMember - role_ids oldMember = {}"
      if "filter (\<lambda>r. role_id r \<notin> role_ids oldMember) (map snd (roles_cache newMember)) = []"
      using sn unfolding that by simp
    moreover have "role_ids oldMember - role_ids newMember = {}"
      if "filter (\<lambda>r. role_id r \<notin> role_ids newMember) (map snd (roles_cache oldMember)) = []"
      using so unfolding that by simp
    ultimately have
      "filter (\<lambda>r. role_id r \<notin> role_ids oldMember) (map snd (roles_cache newMember)) \<noteq> []
       \<or> filter (\<lambda>r. role_id r \<notin> role_ids newMember) (map snd (roles_cache oldMember)) \<noteq> []"
      by blast
    then have "role_add_events oldMember newMember \<noteq> []
               \<or> role_remove_events oldMember newMember \<noteq> []"
      by (simp add: role_add_events_def role_remove_events_def)
    then have "specific_trace avatarURL oldMember newMember \<noteq> []"
      by (auto simp: specific_trace_def)
    then have "named ''unhandledGuildMemberUpdate''
                 (emitted_events avatarURL client oldMember newMember) = []"
      using assms(1) by (rule named_fallback_emitted)
    then show ?thesis
      by (simp add: fires_named)
  qed
  from fb have fb': "role_ids oldMember \<noteq> role_ids newMember \<longrightarrow>
                       \<not> fires ''unhandledGuildMemberUpdate''
                           (emitted_events avatarURL client oldMember newMember)"
    by (rule impI)
  show ?thesis
    by (rule conjI [OF add conjI [OF dn conjI [OF sn conjI [OF rem conjI [OF do conjI [OF so fb']]]]]])
qed

text \<open>
  The case of the claim: old roles A, B and new roles B, C. One \<^verbatim>\<open>guildMemberRoleAdd\<close> for
  C, one \<^verbatim>\<open>guildMemberRoleRemove\<close> for A, no fallback.
\<close>

theorem C5_role_add_and_remove_witness:
  "\<not> partial member_AB \<and> keyed_by_id (roles_cache member_AB)
   \<and> keyed_by_id (roles_cache member_BC)
   \<and> role_ids member_AB \<noteq> role_ids member_BC
   \<and> named ''guildMemberRoleAdd'' (emitted_events sample_avatarURL [] member_AB member_BC)
       = [(''guildMemberRoleAdd'', [MemberArg member_AB, RoleArg roleC])]
   \<and> named ''guildMemberRoleRemove'' (emitted_events sample_avatarURL [] member_AB member_BC)
       = [(''guildMemberRoleRemove'', [MemberArg member_AB, RoleArg roleA])]
   \<and> \<not> fires ''unhandledGuildMemberUpdate''
         (emitted_events sample_avatarURL [] member_AB member_BC)
   \<and> emitted_events sample_avatarURL [] member_AB member_BC
       = [(''guildMemberRoleAdd'', [MemberArg member_AB, RoleArg roleC]),
          (''guildMemberRoleRemove'', [MemberArg member_AB, RoleArg roleA])]"
proof -
  have p: "\<not> partial member_AB"
    by (simp add: plain_member_def member_AB_def member_BC_def roleA_def roleB_def roleC_def sample_avatarURL_def)
  have c: "roles_cache member_AB = [(''A'', roleA), (''B'', roleB)]"
    "roles_cache member_BC = [(''B'', roleB), (''C'', roleC)]"
    by (simp_all add: member_AB_def member_BC_def)
  have i: "role_id roleA = ''A''" "role_id roleB = ''B''" "role_id roleC = ''C''"
    by (simp_all add: roleA_def roleB_def roleC_def)
  have k: "keyed_by_id (roles_cache member_AB)" "keyed_by_id (roles_cache member_BC)"
    unfolding c by (simp_all add: keyed_by_id_def i)
  have r: "role_ids member_AB = {''A'', ''B''}" "role_ids member_BC = {''B'', ''C''}"
    unfolding role_ids_def c by auto
  have "''A'' \<in> role_ids member_AB" "''A'' \<notin> role_ids member_BC"
    unfolding r by simp_all
  then have d: "role_ids member_AB \<noteq> role_ids member_BC"
    by blast
  have f: "premiumSince member_AB = None" "premiumSince member_BC = None"
    "nickname member_AB = None" "nickname member_BC = None"
    "pending member_AB = False" "pending member_BC = False"
    "avatar member_AB = None" "avatar member_BC = None"
    by (simp_all add: member_AB_def member_BC_def plain_member_def)
  have t: "specific_trace sample_avatarURL member_AB member_BC
             = [(''guildMemberRoleAdd'', [MemberArg member_AB, RoleArg roleC]),
                (''guildMemberRoleRemove'', [MemberArg member_AB, RoleArg roleA])]"
    by (simp add: specific_trace_def boost_events_def unboost_events_def
        role_add_events_def role_remove_events_def nickname_events_def entered_events_def
        avatar_add_events_def avatar_update_events_def avatar_remove_events_def r c f
        truthy_date_def truthy_string_def i)
  have e: "emitted_events sample_avatarURL [] member_AB member_BC
             = [(''guildMemberRoleAdd'', [MemberArg member_AB, RoleArg roleC]),
                (''guildMemberRoleRemove'', [MemberArg member_AB, RoleArg roleA])]"
    by (simp add: emitted_events_eq t p)
  have a: "named ''guildMemberRoleAdd'' (emitted_events sample_avatarURL [] member_AB member_BC)
             = map (\<lambda>r. (''guildMemberRoleAdd'', [MemberArg member_AB, RoleArg r]))
                 (filter (\<lambda>r. role_id r \<notin> role_ids member_AB) (map snd (roles_cache member_BC)))"
    using C5_role_add_and_remove [OF p k, of sample_avatarURL "[]"] by (rule conjunct1)
  have a': "named ''guildMemberRoleAdd'' (emitted_events sample_avatarURL [] member_AB member_BC)
              = [(''guildMemberRoleAdd'', [MemberArg member_AB, RoleArg roleC])]"
    unfolding a r c by (simp add: i)
  have b: "named ''guildMemberRoleRemove'' (emitted_events sample_avatarURL [] member_AB member_BC)
             = [(''guildMemberRoleRemove'', [MemberArg member_AB, RoleArg roleA])]"
    unfolding e by (simp add: named_def)
  have n: "\<not> fires ''unhandledGuildMemberUpdate''
               (emitted_events sample_avatarURL [] member_AB member_BC)"
    unfolding e by (simp add: fires_def)
  show ?thesis
    using p k d a' b n e by blast
qed

text \<open>
  C6. When the old snapshot is not partial and the old nickname is not strictly equal to the
  new one (either may be absent), the call emits \<^verbatim>\<open>guildMemberNicknameUpdate\<close> with the
  new member, the old nickname and the new nickname.
\<close>

theorem C6_nickname_update:
  assumes "\<not> partial oldMember" and "nickname oldMember \<noteq> nickname newMember"
  shows "named ''guildMemberNicknameUpdate''
           (emitted_events avatarURL client oldMember newMember)
         = [(''guildMemberNicknameUpdate'',
             [MemberArg newMember, StringArg (nickname oldMember),
              StringArg (nickname newMember)])]"
  using assms
  by (simp add: named_emitted nickname_events_def)

text \<open>The case of the claim: old nickname "Bob", new nickname \<^verbatim>\<open>null\<close>.\<close>

theorem C6_nickname_update_witness:
  "\<not> partial member_Bob \<and> nickname member_Bob \<noteq> nickname plain_member
   \<and> emitted_events sample_avatarURL [] member_Bob plain_member
       = [(''guildMemberNicknameUpdate'',
           [MemberArg plain_member, StringArg (Some ''Bob''), StringArg None])]"
proof -
  have p: "\<not> partial member_Bob"
    and d: "nickname member_Bob \<noteq> nickname plain_member"
    by (simp_all add: plain_member_def member_Bob_def)
  have e: "emitted_events sample_avatarURL [] member_Bob plain_member
             = [(''guildMemberNicknameUpdate'',
                 [MemberArg plain_member, StringArg (Some ''Bob''), StringArg None])]"
    unfolding emitted_events_eq specific_trace_def
    by (simp add: trace_defs plain_member_def member_Bob_def)
  show ?thesis
    using p d e C6_nickname_update [OF p d, of sample_avatarURL "[]"]
    by simp
qed

text \<open>
  C7. When the old snapshot is not partial, \<^verbatim>\<open>guildMemberEntered\<close> is emitted, with the
  new member, if and only if the old and the new pending flag differ, whichever way the flag
  flips.
\<close>

theorem C7_entered_iff_pending_flips:
  assumes "\<not> partial oldMember"
  shows "fires ''guildMemberEntered'' (emitted_events avatarURL client oldMember newMember)
           = (pending oldMember \<noteq> pending newMember)
       \<and> ((''guildMemberEntered'', [MemberArg newMember])
             \<in> set (emitted_events avatarURL client oldMember newMember))
           = (pending oldMember \<noteq> pending newMember)"
proof -
  have n: "named ''guildMemberEntered'' (emitted_events avatarURL client oldMember newMember)
             = entered_events oldMember newMember"
    using assms by (rule named_emitted)
  have "((''guildMemberEntered'', [MemberArg newMember])
           \<in> set (emitted_events avatarURL client oldMember newMember))
        = ((''guildMemberEntered'', [MemberArg newMember])
           \<in> set (named ''guildMemberEntered''
                    (emitted_events avatarURL client oldMember newMember)))"
    by (simp add: named_def)
  then show ?thesis
    unfolding fires_named n by (simp add: entered_events_def)
qed

theorem C7_entered_iff_pending_flips_witness:
  "\<not> partial plain_member \<and> \<not> partial member_pending
   \<and> \<not> pending plain_member \<and> pending member_pending
   \<and> fires ''guildMemberEntered'' (emitted_events sample_avatarURL [] plain_member member_pending)
   \<and> fires ''guildMemberEntered'' (emitted_events sample_avatarURL [] member_pending plain_member)
   \<and> \<not> fires ''guildMemberEntered'' (emitted_events sample_avatarURL [] plain_member plain_member)"
proof -
  have p: "\<not> partial plain_member" and q: "\<not> partial member_pending"
    and f: "\<not> pending plain_member" and t: "pending member_pending"
    by (simp_all add: plain_member_def member_pending_def)
  show ?thesis
    using p q f t
      C7_entered_iff_pending_flips [OF p, of sample_avatarURL "[]" member_pending]
      C7_entered_iff_pending_flips [OF q, of sample_avatarURL "[]" plain_member]
      C7_entered_iff_pending_flips [OF p, of sample_avatarURL "[]" plain_member]
    by simp
qed

text \<open>
  C8. When the old snapshot is not partial, its boost timestamp is absent and the new one is
  present, the call emits \<^verbatim>\<open>guildMemberBoost\<close> with the new member and does not emit
  \<^verbatim>\<open>unhandledGuildMemberUpdate\<close>.
\<close>

theorem C8_boost_started:
  assumes "\<not> partial oldMember"
    and "premiumSince oldMember = None" and "premiumSince newMember = Some t"
  shows "named ''guildMemberBoost'' (emitted_events avatarURL client oldMember newMember)
           = [(''guildMemberBoost'', [MemberArg newMember])]
       \<and> \<not> fires ''unhandledGuildMemberUpdate''
             (emitted_events avatarURL client oldMember newMember)"
proof -
  have b: "boost_events oldMember newMember = [(''guildMemberBoost'', [MemberArg newMember])]"
    using assms(2,3) by (simp add: boost_events_def truthy_date_def)
  then have "specific_trace avatarURL oldMember newMember \<noteq> []"
    by (simp add: specific_trace_def)
  then have "named ''unhandledGuildMemberUpdate''
               (emitted_events avatarURL client oldMember newMember) = []"
    using assms(1) by (rule named_fallback_emitted)
  then show ?thesis
    using assms(1) b by (simp add: fires_named named_emitted)
qed

theorem C8_boost_started_witness:
  "\<not> partial plain_member \<and> premiumSince plain_member = None
   \<and> premiumSince member_boosting = Some 1700000000000
   \<and> emitted_events sample_avatarURL [] plain_member member_boosting
       = [(''guildMemberBoost'', [MemberArg member_boosting])]"
proof -
  have p: "\<not> partial plain_member"
    and a: "premiumSince plain_member = None"
    and b: "premiumSince member_boosting = Some 1700000000000"
    by (simp_all add: plain_member_def member_boosting_def)
  have e: "emitted_events sample_avatarURL [] plain_member member_boosting
             = [(''guildMemberBoost'', [MemberArg member_boosting])]"
    unfolding emitted_events_eq specific_trace_def
    by (simp add: trace_defs plain_member_def member_boosting_def)
  show ?thesis
    using p a b e C8_boost_started [OF p a b, of sample_avatarURL "[]"]
    by simp
qed

text \<open>
  C9. The handler is deterministic: what a call emits depends on the two snapshots only, not
  on the client it is given, and a second call with the same snapshots appends the same
  emissions, with the same payloads, in the same order.
\<close>

theorem C9_deterministic:
  "emitted_events avatarURL client' oldMember newMember
     = emitted_events avatarURL client oldMember newMember
   \<and> handleGuildMemberUpdateEvent avatarURL
       (handleGuildMemberUpdateEvent avatarURL client oldMember newMember) oldMember newMember
     = client @ emitted_events avatarURL client oldMember newMember
         @ emitted_events avatarURL client oldMember newMember"
proof -
  have i: "emitted_events avatarURL c oldMember newMember
             = emitted_events avatarURL [] oldMember newMember" for c
    by (simp add: emitted_events_eq)
  have "handleGuildMemberUpdateEvent avatarURL
          (handleGuildMemberUpdateEvent avatarURL client oldMember newMember) oldMember newMember
        = (client @ emitted_events avatarURL client oldMember newMember)
            @ emitted_events avatarURL
                (client @ emitted_events avatarURL client oldMember newMember) oldMember newMember"
    by (simp add: handle_appends [symmetric])
  also have "\<dots> = client @ emitted_events avatarURL client oldMember newMember
                     @ emitted_events avatarURL client oldMember newMember"
    using i [of client] i [of "client @ emitted_events avatarURL client oldMember newMember"]
    by simp
  finally show ?thesis
    using i [of client] i [of client'] by simp
qed

text \<open>
  C10. Whenever \<^verbatim>\<open>guildMemberAvatarAdd\<close> is emitted, the old avatar id is falsy, the new
  one is truthy, so the two are not strictly equal, and \<^verbatim>\<open>guildMemberAvatarUpdate\<close> is
  emitted in the same call with the new member and both resolved URLs.
\<close>

theorem C10_avatar_add_implies_update:
  assumes "\<not> partial oldMember"
    and "fires ''guildMemberAvatarAdd'' (emitted_events avatarURL client oldMember newMember)"
  shows "\<not> truthy_string (avatar oldMember) \<and> truthy_string (avatar newMember)
       \<and> avatar oldMember \<noteq> avatar newMember
       \<and> named ''guildMemberAvatarUpdate'' (emitted_events avatarURL client oldMember newMember)
           = [(''guildMemberAvatarUpdate'',
               [MemberArg newMember, StringArg (avatarURL oldMember),
                StringArg (avatarURL newMember)])]"
proof -
  have "avatar_add_events avatarURL oldMember newMember \<noteq> []"
    using assms by (simp add: fires_named named_emitted)
  then have c: "\<not> truthy_string (avatar oldMember)" "truthy_string (avatar newMember)"
    by (simp_all add: avatar_add_events_def split: if_splits)
  then have d: "avatar oldMember \<noteq> avatar newMember"
    by auto
  show ?thesis
    using assms(1) c d
    by (simp add: named_emitted avatar_update_events_def)
qed

theorem C10_avatar_add_implies_update_witness:
  "\<not> partial plain_member
   \<and> fires ''guildMemberAvatarAdd'' (emitted_events sample_avatarURL [] plain_member member_avatar_x)
   \<and> emitted_events sample_avatarURL [] plain_member member_avatar_x
       = [(''guildMemberAvatarAdd'', [MemberArg member_avatar_x, StringArg (Some ''cdn/x'')]),
          (''guildMemberAvatarUpdate'',
           [MemberArg member_avatar_x, StringArg None, StringArg (Some ''cdn/x'')])]"
proof -
  have p: "\<not> partial plain_member"
    by (simp add: plain_member_def member_avatar_x_def sample_avatarURL_def)
  have u: "sample_avatarURL member_avatar_x = Some ''cdn/x''" "sample_avatarURL plain_member = None"
    by (simp_all add: plain_member_def member_avatar_x_def sample_avatarURL_def truthy_string_def)
  have e: "emitted_events sample_avatarURL [] plain_member member_avatar_x
             = [(''guildMemberAvatarAdd'', [MemberArg member_avatar_x, StringArg (Some ''cdn/x'')]),
                (''guildMemberAvatarUpdate'',
                 [MemberArg member_avatar_x, StringArg None, StringArg (Some ''cdn/x'')])]"
    unfolding emitted_events_eq specific_trace_def u [symmetric]
    by (simp add: trace_defs plain_member_def member_avatar_x_def)
  have f: "fires ''guildMemberAvatarAdd''
             (emitted_events sample_avatarURL [] plain_member member_avatar_x)"
    unfolding e by (simp add: fires_def)
  show ?thesis
    using p f e C10_avatar_add_implies_update [OF p f]
    by simp
qed

end
